theory Spec2Isabelle
  imports Main
begin

section \<open>Data model (boxoffice/models.py)\<close>

text \<open>
  The relational store is modelled as one list of rows per table, in insertion order.
  Primary keys (\<open>UUIDField\<close>) are opaque values; timestamps are seconds on an integer
  clock, and quantities are Python integers. The bookkeeping columns \<open>created_at\<close> and
  \<open>updated_at\<close> are never read by the engine and are left out of the rows.
\<close>

type_synonym uuid = nat
type_synonym timestamp = int

datatype Status = ACTIVE | EXPIRED | BOOKED

record Event =
  e_id :: uuid
  e_name :: string
  total_seats :: int

record Hold =
  h_id :: uuid
  h_event :: uuid
  qty :: int
  expires_at :: timestamp
  payment_token :: string
  status :: Status

record Booking =
  b_id :: uuid
  b_hold :: uuid
  booking_id :: string

record Metrics =
  m_id :: nat
  m_event :: uuid
  total_holds :: int
  total_bookings :: int
  total_expiries :: int
  total_held_seats :: int
  total_booked_seats :: int
  total_expired_seats :: int

text \<open>
  Python exceptions of the engine, by class. \<open>ValidationError\<close> carries what the
  serializer reported: the names of the fields that failed their own validation (among
  them \<open>event_id\<close>, with the message "Event not found"), or the message of the
  object-level \<open>validate\<close>; \<open>NotEnoughSeats\<close> carries the requested and the
  available quantity of its message.
\<close>

datatype verr =
    InvalidFields "string list"
  | NotEnoughSeats int int
  | HoldNotFound
  | HoldNotActive
  | HoldHasExpired
  | InvalidPaymentToken
  | HoldAlreadyBooked

datatype exn =
    ValidationError verr
  | Http404
  | HoldDoesNotExist
  | EventDoesNotExist
  | IntegrityError
  | DatabaseError
  | MultipleObjectsReturned
  | RedisError
  | LockNotAcquired
  | CeleryError

text \<open>The error and warning lines the engine writes to its log.\<close>

datatype log_line =
    LogFailedToScheduleExpiry uuid
  | LogFailedToCreateHold exn
  | LogApiError exn
  | LogUnexpectedError exn
  | LogHoldNotFoundInDatabase uuid
  | LogHoldNotExpiredYet uuid
  | LogErrorExpiringHold uuid exn

text \<open>An HTTP response: status code and body.\<close>

datatype body =
    HoldData uuid timestamp string
  | BookingData string
  | MetricsData Metrics
  | ErrorDetail exn
  | InsufficientSeats int int
  | FailedToCreateHold exn
  | DatabaseIntegrityError
  | InternalServerError

type_synonym response = "nat \<times> body"

text \<open>
  The world an operation runs in: the four tables, the queue of delayed expiry tasks
  (hold id and eta) and the log. A rolled-back transaction restores the tables.
\<close>

record world =
  events :: "Event list"
  holds :: "Hold list"
  bookings :: "Booking list"
  metrics :: "Metrics list"
  tasks :: "(uuid \<times> timestamp) list"
  log :: "log_line list"

text \<open>
  What one request or task run sees besides the store: the clock, the two settings
  read by the serializers (their values are not part of the sources at hand, so
  they are parameters), whether the lock service, the cache and the task broker answer,
  and the random values drawn by \<open>uuid.uuid4()\<close>.
\<close>

record ctx =
  now :: timestamp
  HOLD_EXPIRY_MINUTES :: int
  MAX_HOLD_TTL_MINUTES :: int
  lock_ok :: bool
  cache_ok :: bool
  schedule_ok :: bool
  fresh_uuid :: uuid
  fresh_token :: string

section \<open>Inventory accounting (Event properties)\<close>

text \<open>\<open>aggregate(total=Sum('qty'))['total']\<close> is \<open>None\<close> on an empty queryset.\<close>

definition Sum_qty :: "Hold list \<Rightarrow> int option" where
  "Sum_qty hs = (if hs = [] then None else Some (sum_list (map qty hs)))"

text \<open>Python's \<open>x or 0\<close> on an optional integer.\<close>

fun or0 :: "int option \<Rightarrow> int" where
  "or0 None = 0"
| "or0 (Some n) = (if n = 0 then 0 else n)"

definition event_holds :: "world \<Rightarrow> uuid \<Rightarrow> Hold list" where
  "event_holds w e = filter (\<lambda>h. h_event h = e) (holds w)"

text \<open>The reverse one-to-one relation \<open>hold.booking\<close>: the booking row of a hold, if any.\<close>

definition booking_of :: "world \<Rightarrow> Hold \<Rightarrow> Booking option" where
  "booking_of w h = find (\<lambda>b. b_hold b = h_id h) (bookings w)"

definition has_booking :: "world \<Rightarrow> Hold \<Rightarrow> bool" where
  "has_booking w h = (booking_of w h \<noteq> None)"

definition available_seats :: "world \<Rightarrow> Event \<Rightarrow> int" where
  "available_seats w e =
     (let held = or0 (Sum_qty (filter (\<lambda>h. status h = ACTIVE) (event_holds w (e_id e))));
          booked = or0 (Sum_qty (filter (has_booking w) (event_holds w (e_id e))))
      in max 0 (total_seats e - held - booked))"

definition held_seats :: "world \<Rightarrow> Event \<Rightarrow> int" where
  "held_seats w e = or0 (Sum_qty (filter (\<lambda>h. status h = ACTIVE) (event_holds w (e_id e))))"

definition booked_seats :: "world \<Rightarrow> Event \<Rightarrow> int" where
  "booked_seats w e = or0 (Sum_qty (filter (has_booking w) (event_holds w (e_id e))))"

definition is_expired :: "ctx \<Rightarrow> Hold \<Rightarrow> bool" where
  "is_expired c h = (now c > expires_at h)"


section \<open>Collaborators (boxoffice/utils.py)\<close>

text \<open>
  The cache (Redis) holds the expiry markers and the operational counters. Neither is
  read back by the engine, so only the one thing the engine can observe of a cache
  call is modelled: whether it raises.
\<close>

definition set_hold_expiry :: "ctx \<Rightarrow> exn + unit" where
  "set_hold_expiry c = (if cache_ok c then Inr () else Inl RedisError)"

definition clear_hold_expiry :: "ctx \<Rightarrow> exn + unit" where
  "clear_hold_expiry c = (if cache_ok c then Inr () else Inl RedisError)"

definition increment_metric :: "ctx \<Rightarrow> exn + unit" where
  "increment_metric c = (if cache_ok c then Inr () else Inl RedisError)"

text \<open>\<open>RedisLock.__enter__\<close> raises when the lock is not acquired within its wait.\<close>

definition RedisLock_enter :: "ctx \<Rightarrow> exn + unit" where
  "RedisLock_enter c = (if lock_ok c then Inr () else Inl LockNotAcquired)"

text \<open>
  \<open>custom_exception_handler\<close>: the framework's handler answers the API exceptions
  (400 for a validation error, 404), the two Django branches follow, and anything else
  is a logged 500.
\<close>

fun custom_exception_handler :: "exn \<Rightarrow> response \<times> log_line list" where
  "custom_exception_handler (ValidationError v) =
     ((400, ErrorDetail (ValidationError v)), [LogApiError (ValidationError v)])"
| "custom_exception_handler Http404 = ((404, ErrorDetail Http404), [LogApiError Http404])"
| "custom_exception_handler IntegrityError = ((400, DatabaseIntegrityError), [])"
| "custom_exception_handler e = ((500, InternalServerError), [LogUnexpectedError e])"

section \<open>Store operations\<close>

text \<open>
  \<open>Hold.objects.create\<close>: the insert fails on a duplicate primary key, a duplicate
  \<open>payment_token\<close> (unique), a violated \<open>hold_qty_positive\<close> check, or a missing event
  row (foreign key).
\<close>

definition Hold_objects_create :: "world \<Rightarrow> Hold \<Rightarrow> exn + (Hold \<times> world)" where
  "Hold_objects_create w hold =
     (if list_ex (\<lambda>r. h_id r = h_id hold \<or> payment_token r = payment_token hold) (holds w)
         \<or> \<not> qty hold > 0
         \<or> \<not> list_ex (\<lambda>e. e_id e = h_event hold) (events w)
      then Inl IntegrityError
      else Inr (hold, w\<lparr>holds := holds w @ [hold]\<rparr>))"

text \<open>
  \<open>hold.save(update_fields=['status', 'updated_at'])\<close>: an update of the row with the
  object's primary key, whatever status the row has; it raises when no row is affected.
\<close>

definition Hold_save_status :: "world \<Rightarrow> Hold \<Rightarrow> exn + world" where
  "Hold_save_status w hold =
     (if list_ex (\<lambda>r. h_id r = h_id hold) (holds w)
      then Inr (w\<lparr>holds := map (\<lambda>r. if h_id r = h_id hold then r\<lparr>status := status hold\<rparr> else r)
                                 (holds w)\<rparr>)
      else Inl DatabaseError)"

text \<open>
  \<open>Booking.objects.create(hold=hold)\<close>; \<open>Booking.save\<close> fills in the reference
  \<open>BK-\<close> followed by eight random hex digits. The insert fails on a duplicate primary
  key, a second booking of the same hold (one-to-one), a duplicate reference (unique) or
  a missing hold row (foreign key).
\<close>

definition Booking_objects_create :: "ctx \<Rightarrow> world \<Rightarrow> Hold \<Rightarrow> exn + (Booking \<times> world)" where
  "Booking_objects_create c w hold =
     (let booking = \<lparr>b_id = fresh_uuid c, b_hold = h_id hold,
                     booking_id = ''BK-'' @ fresh_token c\<rparr>
      in if list_ex (\<lambda>r. b_id r = b_id booking \<or> b_hold r = b_hold booking
                          \<or> booking_id r = booking_id booking) (bookings w)
            \<or> \<not> list_ex (\<lambda>r. h_id r = h_id hold) (holds w)
         then Inl IntegrityError
         else Inr (booking, w\<lparr>bookings := bookings w @ [booking]\<rparr>))"

text \<open>\<open>hold.event\<close>: the event row the hold's foreign key points to.\<close>

definition Hold_event :: "world \<Rightarrow> Hold \<Rightarrow> exn + Event" where
  "Hold_event w hold =
     (case find (\<lambda>e. e_id e = h_event hold) (events w) of
        None \<Rightarrow> Inl EventDoesNotExist
      | Some e \<Rightarrow> Inr e)"

section \<open>Metrics aggregator (Metrics)\<close>

text \<open>
  \<open>Metrics.event\<close> is a plain foreign key, so \<open>get_or_create(event=event)\<close> raises when
  several rows match. A new row takes the next value of the \<open>AutoField\<close>.
\<close>

definition get_or_create_for_event :: "world \<Rightarrow> Event \<Rightarrow> exn + (Metrics \<times> world)" where
  "get_or_create_for_event w e =
     (case filter (\<lambda>m. m_event m = e_id e) (metrics w) of
        [] \<Rightarrow>
          (let m = \<lparr>m_id = Suc (fold max (map m_id (metrics w)) 0), m_event = e_id e,
                    total_holds = 0, total_bookings = 0, total_expiries = 0,
                    total_held_seats = 0, total_booked_seats = 0, total_expired_seats = 0\<rparr>
           in Inr (m, w\<lparr>metrics := metrics w @ [m]\<rparr>))
      | [m] \<Rightarrow> Inr (m, w)
      | _ \<Rightarrow> Inl MultipleObjectsReturned)"

text \<open>The six counters, recomputed from the hold and booking rows of the event.\<close>

definition recompute :: "world \<Rightarrow> uuid \<Rightarrow> Metrics \<Rightarrow> Metrics" where
  "recompute w e m =
     m\<lparr>total_holds := int (length (event_holds w e)),
       total_bookings := int (length (filter (has_booking w) (event_holds w e))),
       total_expiries := int (length (filter (\<lambda>h. status h = EXPIRED) (event_holds w e))),
       total_held_seats := or0 (Sum_qty (filter (\<lambda>h. status h = ACTIVE) (event_holds w e))),
       total_booked_seats := or0 (Sum_qty (filter (has_booking w) (event_holds w e))),
       total_expired_seats := or0 (Sum_qty (filter (\<lambda>h. status h = EXPIRED) (event_holds w e)))\<rparr>"

definition update_metrics :: "world \<Rightarrow> Metrics \<Rightarrow> exn + (Metrics \<times> world)" where
  "update_metrics w m =
     (let m' = recompute w (m_event m) m
      in if list_ex (\<lambda>r. m_id r = m_id m) (metrics w)
         then Inr (m', w\<lparr>metrics :=
                     map (\<lambda>r. if m_id r = m_id m
                               then r\<lparr>total_holds := total_holds m',
                                      total_bookings := total_bookings m',
                                      total_expiries := total_expiries m',
                                      total_held_seats := total_held_seats m',
                                      total_booked_seats := total_booked_seats m',
                                      total_expired_seats := total_expired_seats m'\<rparr>
                               else r) (metrics w)\<rparr>)
         else Inl DatabaseError)"

text \<open>The two lines every state transition runs after its write.\<close>

definition refresh_metrics :: "world \<Rightarrow> Hold \<Rightarrow> exn + world" where
  "refresh_metrics w hold =
     (case Hold_event w hold of
        Inl x \<Rightarrow> Inl x
      | Inr e \<Rightarrow>
         (case get_or_create_for_event w e of
            Inl x \<Rightarrow> Inl x
          | Inr (m, w1) \<Rightarrow>
             (case update_metrics w1 m of
                Inl x \<Rightarrow> Inl x
              | Inr (m', w2) \<Rightarrow> Inr w2)))"


section \<open>Hold coordinator (HoldCreateSerializer, HoldView.post)\<close>

text \<open>
  A request carries the deserialised fields; \<open>ttl_minutes\<close> may be absent. The
  validated data carries the event instance \<open>validate_event_id\<close> put in place of
  the id, and the default time-to-live when none was sent.
\<close>

record hold_request =
  req_event_id :: uuid
  req_qty :: int
  req_ttl_minutes :: "int option"

record hold_data =
  vd_event :: Event
  vd_qty :: int
  vd_ttl_minutes :: int

text \<open>
  Field validation: \<open>validate_event_id\<close>, \<open>min_value=1\<close> on \<open>qty\<close>, and the bounds on
  \<open>ttl_minutes\<close>, which an absent field (taking the default) is not checked against.
  All failing fields are reported together.
\<close>

definition HoldCreateSerializer_fields :: "ctx \<Rightarrow> world \<Rightarrow> hold_request \<Rightarrow> exn + hold_data" where
  "HoldCreateSerializer_fields c w r =
     (let ev = find (\<lambda>e. e_id e = req_event_id r) (events w);
          bad = (if ev = None then [''event_id''] else [])
                @ (if req_qty r < 1 then [''qty''] else [])
                @ (case req_ttl_minutes r of
                     None \<Rightarrow> []
                   | Some t \<Rightarrow> if t < 1 \<or> t > MAX_HOLD_TTL_MINUTES c then [''ttl_minutes''] else [])
      in case ev of
           None \<Rightarrow> Inl (ValidationError (InvalidFields bad))
         | Some e \<Rightarrow>
             if bad = []
             then Inr \<lparr>vd_event = e, vd_qty = req_qty r,
                       vd_ttl_minutes = (case req_ttl_minutes r of
                                           None \<Rightarrow> HOLD_EXPIRY_MINUTES c
                                         | Some t \<Rightarrow> t)\<rparr>
             else Inl (ValidationError (InvalidFields bad)))"

definition HoldCreateSerializer_validate :: "world \<Rightarrow> hold_data \<Rightarrow> exn + hold_data" where
  "HoldCreateSerializer_validate w d =
     (let available = available_seats w (vd_event d)
      in if vd_qty d > available
         then Inl (ValidationError (NotEnoughSeats (vd_qty d) available))
         else Inr d)"

definition HoldCreateSerializer_is_valid :: "ctx \<Rightarrow> world \<Rightarrow> hold_request \<Rightarrow> exn + hold_data" where
  "HoldCreateSerializer_is_valid c w r =
     (case HoldCreateSerializer_fields c w r of
        Inl x \<Rightarrow> Inl x
      | Inr d \<Rightarrow> HoldCreateSerializer_validate w d)"

definition HoldCreateSerializer_create :: "ctx \<Rightarrow> world \<Rightarrow> hold_data \<Rightarrow> exn + (Hold \<times> world)" where
  "HoldCreateSerializer_create c w d =
     Hold_objects_create w
       \<lparr>h_id = fresh_uuid c, h_event = e_id (vd_event d), qty = vd_qty d,
        expires_at = now c + vd_ttl_minutes d * 60, payment_token = fresh_token c,
        status = ACTIVE\<rparr>"

text \<open>
  The body of \<open>with RedisLock(...)\<close>: the re-check of availability, the insert, the
  cache marker, the delayed task (whose failure is caught and logged on the spot) and
  the counters. It runs outside any transaction, so an exception raised after the
  insert leaves the hold in place. The result is the response, or the exception that
  escaped, with the world as it then is.
\<close>

definition HoldView_post_locked :: "ctx \<Rightarrow> world \<Rightarrow> hold_data \<Rightarrow> (exn + response) \<times> world" where
  "HoldView_post_locked c w d =
     (let available = available_seats w (vd_event d)
      in if vd_qty d > available
         then (Inr (409, InsufficientSeats (vd_qty d) available), w)
         else
           (case HoldCreateSerializer_create c w d of
              Inl x \<Rightarrow> (Inl x, w)
            | Inr (hold, w1) \<Rightarrow>
               (case set_hold_expiry c of
                  Inl x \<Rightarrow> (Inl x, w1)
                | Inr _ \<Rightarrow>
                   (let w2 = (if schedule_ok c
                              then w1\<lparr>tasks := tasks w1 @ [(h_id hold, expires_at hold)]\<rparr>
                              else w1\<lparr>log := log w1 @ [LogFailedToScheduleExpiry (h_id hold)]\<rparr>)
                    in case increment_metric c of
                         Inl x \<Rightarrow> (Inl x, w2)
                       | Inr _ \<Rightarrow>
                          (case increment_metric c of
                             Inl x \<Rightarrow> (Inl x, w2)
                           | Inr _ \<Rightarrow>
                              (Inr (201, HoldData (h_id hold) (expires_at hold) (payment_token hold)),
                               w2))))))"

text \<open>
  \<open>HoldView.post\<close>, given the world at validation and the world at the time the lock is
  held (other requests may have run in between). A validation error leaves through the
  exception handler; any exception under the lock is answered by the view's own 500.
\<close>

definition HoldView_post_at :: "ctx \<Rightarrow> world \<Rightarrow> world \<Rightarrow> hold_request \<Rightarrow> response \<times> world" where
  "HoldView_post_at c w0 w r =
     (case HoldCreateSerializer_is_valid c w0 r of
        Inl x \<Rightarrow> (fst (custom_exception_handler x),
                  w0\<lparr>log := log w0 @ snd (custom_exception_handler x)\<rparr>)
      | Inr d \<Rightarrow>
         (case RedisLock_enter c of
            Inl x \<Rightarrow> ((500, FailedToCreateHold x), w\<lparr>log := log w @ [LogFailedToCreateHold x]\<rparr>)
          | Inr _ \<Rightarrow>
             (case HoldView_post_locked c w d of
                (Inl x, w') \<Rightarrow>
                  ((500, FailedToCreateHold x), w'\<lparr>log := log w' @ [LogFailedToCreateHold x]\<rparr>)
              | (Inr resp, w') \<Rightarrow> (resp, w'))))"

text \<open>The request served with nothing else running: both worlds are the same.\<close>

definition HoldView_post :: "ctx \<Rightarrow> world \<Rightarrow> hold_request \<Rightarrow> response \<times> world" where
  "HoldView_post c w r = HoldView_post_at c w w r"

section \<open>Expiry processor (boxoffice/tasks.py)\<close>

text \<open>The body of the transaction of \<open>expire_specific_hold\<close>.\<close>

definition expire_atomic :: "ctx \<Rightarrow> world \<Rightarrow> uuid \<Rightarrow> exn + world" where
  "expire_atomic c w hold_id =
     (case find (\<lambda>h. h_id h = hold_id \<and> status h = ACTIVE) (holds w) of
        None \<Rightarrow> Inl HoldDoesNotExist
      | Some hold \<Rightarrow>
          if is_expired c hold
          then
            (case Hold_save_status w (hold\<lparr>status := EXPIRED\<rparr>) of
               Inl x \<Rightarrow> Inl x
             | Inr w1 \<Rightarrow>
                (case clear_hold_expiry c of
                   Inl x \<Rightarrow> Inl x
                 | Inr _ \<Rightarrow>
                    (case refresh_metrics w1 hold of
                       Inl x \<Rightarrow> Inl x
                     | Inr w2 \<Rightarrow>
                        (case increment_metric c of
                           Inl x \<Rightarrow> Inl x
                         | Inr _ \<Rightarrow>
                            (case increment_metric c of
                               Inl x \<Rightarrow> Inl x
                             | Inr _ \<Rightarrow> Inr w2)))))
          else Inr (w\<lparr>log := log w @ [LogHoldNotExpiredYet hold_id]\<rparr>))"

text \<open>
  The task: an exception rolls the transaction back and is caught; the task itself
  never raises, so its only result is the world it leaves.
\<close>

definition expire_specific_hold :: "ctx \<Rightarrow> world \<Rightarrow> uuid \<Rightarrow> world" where
  "expire_specific_hold c w hold_id =
     (case expire_atomic c w hold_id of
        Inr w' \<Rightarrow> w'
      | Inl HoldDoesNotExist \<Rightarrow> w\<lparr>log := log w @ [LogHoldNotFoundInDatabase hold_id]\<rparr>
      | Inl x \<Rightarrow> w\<lparr>log := log w @ [LogErrorExpiringHold hold_id x]\<rparr>)"


section \<open>Booking finalizer (BookingCreateSerializer, BookingView.post)\<close>

record booking_request =
  req_hold_id :: uuid
  req_payment_token :: string

text \<open>
  \<open>BookingCreateSerializer.validate\<close> returns the hold instance it read. The instance
  caches the outcome of \<open>hasattr(hold, 'booking')\<close>, which the view asks again: the
  second component is that cached relation.
\<close>

definition BookingCreateSerializer_validate ::
    "ctx \<Rightarrow> world \<Rightarrow> booking_request \<Rightarrow> exn + (Hold \<times> Booking option)" where
  "BookingCreateSerializer_validate c w r =
     (case find (\<lambda>h. h_id h = req_hold_id r) (holds w) of
        None \<Rightarrow> Inl (ValidationError HoldNotFound)
      | Some hold \<Rightarrow>
          if status hold \<noteq> ACTIVE then Inl (ValidationError HoldNotActive)
          else if is_expired c hold then Inl (ValidationError HoldHasExpired)
          else if payment_token hold \<noteq> req_payment_token r
            then Inl (ValidationError InvalidPaymentToken)
          else if booking_of w hold \<noteq> None then Inl (ValidationError HoldAlreadyBooked)
          else Inr (hold, booking_of w hold))"

text \<open>The body of \<open>with transaction.atomic()\<close> in \<open>BookingView.post\<close>, on the instance.\<close>

definition BookingView_post_atomic ::
    "ctx \<Rightarrow> world \<Rightarrow> Hold \<times> Booking option \<Rightarrow> exn + (response \<times> world)" where
  "BookingView_post_atomic c w inst =
     (case snd inst of
        Some b \<Rightarrow> Inr ((200, BookingData (booking_id b)), w)
      | None \<Rightarrow>
         (case Booking_objects_create c w (fst inst) of
            Inl x \<Rightarrow> Inl x
          | Inr (booking, w1) \<Rightarrow>
             (case Hold_save_status w1 ((fst inst)\<lparr>status := BOOKED\<rparr>) of
                Inl x \<Rightarrow> Inl x
              | Inr w2 \<Rightarrow>
                 (case clear_hold_expiry c of
                    Inl x \<Rightarrow> Inl x
                  | Inr _ \<Rightarrow>
                     (case refresh_metrics w2 (fst inst) of
                        Inl x \<Rightarrow> Inl x
                      | Inr w3 \<Rightarrow>
                         (case increment_metric c of
                            Inl x \<Rightarrow> Inl x
                          | Inr _ \<Rightarrow>
                             (case increment_metric c of
                                Inl x \<Rightarrow> Inl x
                              | Inr _ \<Rightarrow>
                                 Inr ((201, BookingData (booking_id booking)), w3))))))))"

text \<open>
  The transaction on the instance validated earlier, in the world as it is when the
  transaction runs; an exception rolls back and leaves through the exception handler.
\<close>

definition BookingView_post_commit :: "ctx \<Rightarrow> world \<Rightarrow> Hold \<times> Booking option \<Rightarrow> response \<times> world" where
  "BookingView_post_commit c w inst =
     (case BookingView_post_atomic c w inst of
        Inl x \<Rightarrow> (fst (custom_exception_handler x),
                  w\<lparr>log := log w @ snd (custom_exception_handler x)\<rparr>)
      | Inr (resp, w') \<Rightarrow> (resp, w'))"

text \<open>\<open>BookingView.post\<close> served with nothing else running in between.\<close>

definition BookingView_post :: "ctx \<Rightarrow> world \<Rightarrow> booking_request \<Rightarrow> response \<times> world" where
  "BookingView_post c w r =
     (case BookingCreateSerializer_validate c w r of
        Inl x \<Rightarrow> (fst (custom_exception_handler x),
                  w\<lparr>log := log w @ snd (custom_exception_handler x)\<rparr>)
      | Inr inst \<Rightarrow> BookingView_post_commit c w inst)"

section \<open>Event metrics (EventMetricsView.get)\<close>

definition EventMetricsView_get_body :: "world \<Rightarrow> uuid \<Rightarrow> (exn + response) \<times> world" where
  "EventMetricsView_get_body w event_id =
     (case find (\<lambda>e. e_id e = event_id) (events w) of
        None \<Rightarrow> (Inl Http404, w)
      | Some e \<Rightarrow>
         (case get_or_create_for_event w e of
            Inl x \<Rightarrow> (Inl x, w)
          | Inr (m, w1) \<Rightarrow>
             (case update_metrics w1 m of
                Inl x \<Rightarrow> (Inl x, w1)
              | Inr (m', w2) \<Rightarrow> (Inr (200, MetricsData m'), w2))))"

definition EventMetricsView_get :: "world \<Rightarrow> uuid \<Rightarrow> response \<times> world" where
  "EventMetricsView_get w event_id =
     (case EventMetricsView_get_body w event_id of
        (Inl x, w') \<Rightarrow> (fst (custom_exception_handler x),
                        w'\<lparr>log := log w' @ snd (custom_exception_handler x)\<rparr>)
      | (Inr resp, w') \<Rightarrow> (resp, w'))"

section \<open>Runs of the engine\<close>

datatype operation =
    CreateHold hold_request
  | ConfirmBooking booking_request
  | ProcessExpiry uuid




section \<open>Seat sums and the store's invariant\<close>

text \<open>The row update of \<open>hold.save(update_fields=['status', ...])\<close> on one row.\<close>

definition set_status :: "uuid \<Rightarrow> Status \<Rightarrow> Hold \<Rightarrow> Hold" where
  "set_status i s r = (if h_id r = i then r\<lparr>status := s\<rparr> else r)"






section \<open>Example worlds\<close>

definition concert :: Event where
  "concert = \<lparr>e_id = 1, e_name = ''Concert'', total_seats = 10\<rparr>"

definition empty_hall :: world where
  "empty_hall = \<lparr>events = [concert], holds = [], bookings = [], metrics = [],
                  tasks = [], log = []\<rparr>"

text \<open>One hold of each status: three seats held, four booked, two expired.\<close>

definition busy_hall :: world where
  "busy_hall =
     \<lparr>events = [concert],
      holds = [\<lparr>h_id = 11, h_event = 1, qty = 3, expires_at = 100, payment_token = ''t11'',
                status = ACTIVE\<rparr>,
               \<lparr>h_id = 12, h_event = 1, qty = 4, expires_at = 100, payment_token = ''t12'',
                status = BOOKED\<rparr>,
               \<lparr>h_id = 13, h_event = 1, qty = 2, expires_at = 50, payment_token = ''t13'',
                status = EXPIRED\<rparr>],
      bookings = [\<lparr>b_id = 21, b_hold = 12, booking_id = ''BK-0000AAAA''\<rparr>],
      metrics = [], tasks = [], log = []\<rparr>"

definition at_time :: "timestamp \<Rightarrow> ctx" where
  "at_time t = \<lparr>now = t, HOLD_EXPIRY_MINUTES = 5, MAX_HOLD_TTL_MINUTES = 60,
                lock_ok = True, cache_ok = True, schedule_ok = True,
                fresh_uuid = 77, fresh_token = ''0F0F0F0F''\<rparr>"

text \<open>The busy hall after somebody else took two more seats: one seat is left.\<close>

definition fuller_hall :: world where
  "fuller_hall = busy_hall\<lparr>holds := holds busy_hall @
      [\<lparr>h_id = 14, h_event = 1, qty = 2, expires_at = 100, payment_token = ''t14'',
        status = ACTIVE\<rparr>]\<rparr>"

definition seats_request :: "int \<Rightarrow> hold_request" where
  "seats_request n = \<lparr>req_event_id = 1, req_qty = n, req_ttl_minutes = None\<rparr>"

definition book_11 :: booking_request where
  "book_11 = \<lparr>req_hold_id = 11, req_payment_token = ''t11''\<rparr>"

definition hold_11 :: Hold where
  "hold_11 = \<lparr>h_id = 11, h_event = 1, qty = 3, expires_at = 100, payment_token = ''t11'',
              status = ACTIVE\<rparr>"

definition broker_down :: ctx where
  "broker_down = (at_time 0)\<lparr>schedule_ok := False\<rparr>"

text \<open>The busy hall with a metrics row that was never refreshed.\<close>

definition stale_hall :: world where
  "stale_hall = busy_hall\<lparr>metrics := [\<lparr>m_id = 1, m_event = 1, total_holds = 0, total_bookings = 0,
      total_expiries = 0, total_held_seats = 0, total_booked_seats = 0,
      total_expired_seats = 0\<rparr>]\<rparr>"

definition fresh_counters :: Metrics where
  "fresh_counters = \<lparr>m_id = 1, m_event = 1, total_holds = 3, total_bookings = 1,
      total_expiries = 1, total_held_seats = 3, total_booked_seats = 4,
      total_expired_seats = 2\<rparr>"


text \<open>Three late attempts on the booked hold 12.\<close>

definition hold_12 :: Hold where
  "hold_12 = \<lparr>h_id = 12, h_event = 1, qty = 4, expires_at = 100, payment_token = ''t12'',
              status = BOOKED\<rparr>"

definition late_attempts :: "(ctx \<times> operation) list" where
  "late_attempts =
     [(at_time 200, ProcessExpiry 12),
      (at_time 0, ConfirmBooking \<lparr>req_hold_id = 12, req_payment_token = ''t12''\<rparr>),
      (at_time 0, CreateHold (seats_request 1))]"

text \<open>A request context that draws the given id and token.\<close>

definition draw :: "timestamp \<Rightarrow> uuid \<Rightarrow> string \<Rightarrow> ctx" where
  "draw t n s = (at_time t)\<lparr>fresh_uuid := n, fresh_token := s\<rparr>"

text \<open>
  An evening at the empty hall: seven seats held, five refused, three held, the first
  hold booked, the last expired.
\<close>

definition evening :: "(ctx \<times> operation) list" where
  "evening =
     [(draw 0 31 ''A1'', CreateHold (seats_request 7)),
      (draw 1 32 ''A2'', CreateHold (seats_request 5)),
      (draw 2 33 ''A3'', CreateHold (seats_request 3)),
      (draw 3 41 ''B1'', ConfirmBooking \<lparr>req_hold_id = 31, req_payment_token = ''A1''\<rparr>),
      (draw 400 42 ''B2'', ProcessExpiry 33)]"

text \<open>One hold on all ten seats.\<close>

definition full_house :: world where
  "full_house = empty_hall\<lparr>holds :=
      [\<lparr>h_id = 11, h_event = 1, qty = 10, expires_at = 100, payment_token = ''t11'',
        status = ACTIVE\<rparr>]\<rparr>"


section \<open>Properties\<close>

lemmas engine_defs =
  BookingCreateSerializer_validate_def is_expired_def booking_of_def BookingView_post_def
  BookingView_post_commit_def BookingView_post_atomic_def Booking_objects_create_def
  Hold_save_status_def clear_hold_expiry_def set_hold_expiry_def refresh_metrics_def Hold_event_def
  get_or_create_for_event_def update_metrics_def recompute_def increment_metric_def
  HoldView_post_def HoldView_post_at_def HoldView_post_locked_def HoldCreateSerializer_is_valid_def
  HoldCreateSerializer_fields_def HoldCreateSerializer_validate_def HoldCreateSerializer_create_def
  Hold_objects_create_def RedisLock_enter_def available_seats_def event_holds_def has_booking_def
  Sum_qty_def expire_specific_hold_def expire_atomic_def EventMetricsView_get_def
  EventMetricsView_get_body_def

lemmas example_defs =
  busy_hall_def empty_hall_def concert_def at_time_def fuller_hall_def seats_request_def
  book_11_def hold_11_def broker_down_def stale_hall_def fresh_counters_def hold_12_def
  late_attempts_def draw_def evening_def full_house_def

lemma or0_Sum_qty: "or0 (Sum_qty hs) = sum_list (map qty hs)"
  by (simp add: Sum_qty_def)

lemma has_booking_iff: "has_booking w h \<longleftrightarrow> (\<exists>b\<in>set (bookings w). b_hold b = h_id h)"
  by (auto simp: has_booking_def booking_of_def find_None_iff)

subsection \<open>Availability\<close>

text \<open>
  Claim C5. The availability of an event is \<open>max(0, total_seats - held - booked)\<close>,
  where held is the sum of \<open>qty\<close> over the event's holds with status ACTIVE and booked
  is the sum of \<open>qty\<close> over the event's holds for which a booking row exists.
\<close>

theorem available_seats_formula:
  "available_seats w e = max 0 (total_seats e - held_seats w e - booked_seats w e) \<and>
   held_seats w e =
     sum_list (map qty (filter (\<lambda>h. h_event h = e_id e \<and> status h = ACTIVE) (holds w))) \<and>
   booked_seats w e =
     sum_list (map qty (filter (\<lambda>h. h_event h = e_id e \<and> (\<exists>b\<in>set (bookings w). b_hold b = h_id h))
                               (holds w)))"
proof -
  have hb: "has_booking w = (\<lambda>h. \<exists>b\<in>set (bookings w). b_hold b = h_id h)"
    by (simp add: has_booking_iff fun_eq_iff)
  have "filter (\<lambda>h. status h = ACTIVE) (event_holds w (e_id e)) =
        filter (\<lambda>h. h_event h = e_id e \<and> status h = ACTIVE) (holds w)"
    by (simp add: event_holds_def conj_commute)
  moreover have "filter (has_booking w) (event_holds w (e_id e)) =
        filter (\<lambda>h. h_event h = e_id e \<and> (\<exists>b\<in>set (bookings w). b_hold b = h_id h)) (holds w)"
    by (simp add: event_holds_def hb conj_commute)
  ultimately show ?thesis
    by (simp add: available_seats_def held_seats_def booked_seats_def or0_Sum_qty Let_def)
qed

theorem available_seats_formula_witness:
  "available_seats busy_hall concert = 3 \<and> held_seats busy_hall concert = 3
   \<and> booked_seats busy_hall concert = 4"
  using available_seats_formula [of busy_hall concert]
  by (simp add: busy_hall_def concert_def)

subsection \<open>Creating a hold\<close>

lemma is_valid_facts:
  assumes "HoldCreateSerializer_is_valid c w r = Inr d"
  shows "vd_event d \<in> set (events w)" "vd_qty d \<ge> 1" "vd_qty d \<le> available_seats w (vd_event d)"
        "e_id (vd_event d) = req_event_id r" "vd_qty d = req_qty r"
        "find (\<lambda>e. e_id e = req_event_id r) (events w) = Some (vd_event d)"
proof -
  obtain e where e: "find (\<lambda>e. e_id e = req_event_id r) (events w) = Some e"
    using assms
    by (cases "find (\<lambda>e. e_id e = req_event_id r) (events w)")
       (auto simp: HoldCreateSerializer_is_valid_def HoldCreateSerializer_fields_def Let_def)
  have q: "\<not> req_qty r < 1"
    using assms e
    by (auto simp: HoldCreateSerializer_is_valid_def HoldCreateSerializer_fields_def Let_def
        split: if_splits)
  have f: "HoldCreateSerializer_fields c w r = Inr d"
    using assms
    by (cases "HoldCreateSerializer_fields c w r")
       (auto simp: HoldCreateSerializer_is_valid_def HoldCreateSerializer_validate_def Let_def
        split: if_splits)
  have d: "vd_event d = e" "vd_qty d = req_qty r"
    using f e by (auto simp: HoldCreateSerializer_fields_def Let_def split: if_splits)
  have "e \<in> set (events w)" "e_id e = req_event_id r"
    using e by (auto simp: find_Some_iff in_set_conv_nth)
  then show "vd_event d \<in> set (events w)" "e_id (vd_event d) = req_event_id r"
    using d by simp_all
  show "vd_qty d \<ge> 1" using q d by simp
  show "vd_qty d = req_qty r" by (rule d)
  show "find (\<lambda>e. e_id e = req_event_id r) (events w) = Some (vd_event d)" using e d by simp
  show "vd_qty d \<le> available_seats w (vd_event d)"
    using assms f
    by (auto simp: HoldCreateSerializer_is_valid_def HoldCreateSerializer_validate_def Let_def
        split: if_splits)
qed

lemma is_valid_schedule [simp]:
  "HoldCreateSerializer_is_valid (c\<lparr>schedule_ok := b\<rparr>) w r = HoldCreateSerializer_is_valid c w r"
  by (simp add: HoldCreateSerializer_is_valid_def HoldCreateSerializer_fields_def Let_def
      cong: option.case_cong if_cong)

lemma create_schedule [simp]:
  "HoldCreateSerializer_create (c\<lparr>schedule_ok := b\<rparr>) w d = HoldCreateSerializer_create c w d"
  by (simp add: HoldCreateSerializer_create_def)

lemma locked_schedule:
  "fst (HoldView_post_locked (c\<lparr>schedule_ok := False\<rparr>) w d)
     = fst (HoldView_post_locked (c\<lparr>schedule_ok := True\<rparr>) w d)
   \<and> holds (snd (HoldView_post_locked (c\<lparr>schedule_ok := False\<rparr>) w d))
     = holds (snd (HoldView_post_locked (c\<lparr>schedule_ok := True\<rparr>) w d))"
proof (cases "HoldCreateSerializer_create c w d")
  case (Inl x)
  then show ?thesis by (simp add: HoldView_post_locked_def Let_def)
next
  case (Inr p)
  then show ?thesis
    by (cases p) (simp add: HoldView_post_locked_def Let_def set_hold_expiry_def
        increment_metric_def)
qed


text \<open>
  Claim C6, as the code has it. A request for more seats than are available fails and
  changes no table. It is the serializer that sees the shortfall first, and it reports a
  validation error (400); the conflict (409) is what the re-check under the lock
  answers, which only happens when the seats went between validation and the lock.
\<close>

theorem insufficient_seats_no_mutation:
  "(HoldCreateSerializer_fields c w r = Inr d \<and> vd_qty d > available_seats w (vd_event d) \<longrightarrow>
      HoldView_post c w r =
        ((400, ErrorDetail (ValidationError
                 (NotEnoughSeats (vd_qty d) (available_seats w (vd_event d))))),
         w\<lparr>log := log w @ [LogApiError (ValidationError
                 (NotEnoughSeats (vd_qty d) (available_seats w (vd_event d))))]\<rparr>))
   \<and> (HoldCreateSerializer_is_valid c w0 r = Inr d \<and> lock_ok c
        \<and> vd_qty d > available_seats w (vd_event d) \<longrightarrow>
      HoldView_post_at c w0 w r =
        ((409, InsufficientSeats (vd_qty d) (available_seats w (vd_event d))), w))"
  by (simp add: HoldView_post_def HoldView_post_at_def HoldCreateSerializer_is_valid_def
      HoldCreateSerializer_validate_def HoldView_post_locked_def RedisLock_enter_def Let_def)

theorem insufficient_seats_no_mutation_witness:
  "HoldCreateSerializer_fields (at_time 0) fuller_hall (seats_request 3)
      = Inr \<lparr>vd_event = concert, vd_qty = 3, vd_ttl_minutes = 5\<rparr>
   \<and> HoldCreateSerializer_is_valid (at_time 0) busy_hall (seats_request 3)
      = Inr \<lparr>vd_event = concert, vd_qty = 3, vd_ttl_minutes = 5\<rparr>
   \<and> lock_ok (at_time 0)
   \<and> 3 > available_seats fuller_hall concert
   \<and> HoldView_post (at_time 0) fuller_hall (seats_request 3)
      = ((400, ErrorDetail (ValidationError (NotEnoughSeats 3 1))),
         fuller_hall\<lparr>log := [LogApiError (ValidationError (NotEnoughSeats 3 1))]\<rparr>)
   \<and> HoldView_post_at (at_time 0) busy_hall fuller_hall (seats_request 3)
      = ((409, InsufficientSeats 3 1), fuller_hall)"
proof -
  have f: "HoldCreateSerializer_fields (at_time 0) fuller_hall (seats_request 3)
      = Inr \<lparr>vd_event = concert, vd_qty = 3, vd_ttl_minutes = 5\<rparr>"
    by (simp add: HoldCreateSerializer_fields_def example_defs)
  have v: "HoldCreateSerializer_is_valid (at_time 0) busy_hall (seats_request 3)
      = Inr \<lparr>vd_event = concert, vd_qty = 3, vd_ttl_minutes = 5\<rparr>"
    by (simp add: engine_defs example_defs Let_def)
  have b: "available_seats fuller_hall concert = 1"
    by (simp add: engine_defs example_defs Let_def)
  have l: "lock_ok (at_time 0)" "log fuller_hall = []"
    by (simp_all add: example_defs)
  show ?thesis
    using insufficient_seats_no_mutation
      [of "at_time 0" fuller_hall "seats_request 3"
          "\<lparr>vd_event = concert, vd_qty = 3, vd_ttl_minutes = 5\<rparr>" busy_hall]
    by (simp add: f v b l)
qed


text \<open>
  Claim C6 as stated fails: a request for four seats when three are available is
  answered by the serializer's validation error, not by a conflict.
\<close>

theorem insufficient_seats_counterexample:
  "available_seats busy_hall concert = 3
   \<and> HoldCreateSerializer_fields (at_time 0) busy_hall (seats_request 4)
      = Inr \<lparr>vd_event = concert, vd_qty = 4, vd_ttl_minutes = 5\<rparr>
   \<and> fst (HoldView_post (at_time 0) busy_hall (seats_request 4))
      = (400, ErrorDetail (ValidationError (NotEnoughSeats 4 3)))"
  by (simp add: engine_defs example_defs Let_def)

text \<open>
  Claim C9. Whether the delayed expiry task could be scheduled changes neither the
  response nor the hold table; and a request that passes validation, with the lock and
  the cache answering and a fresh id and token, is answered 201 with the hold created
  ACTIVE, the scheduling failure being logged only.
\<close>

theorem schedule_failure_keeps_hold:
  "fst (HoldView_post (c\<lparr>schedule_ok := False\<rparr>) w r) = fst (HoldView_post (c\<lparr>schedule_ok := True\<rparr>) w r)
   \<and> holds (snd (HoldView_post (c\<lparr>schedule_ok := False\<rparr>) w r))
       = holds (snd (HoldView_post (c\<lparr>schedule_ok := True\<rparr>) w r))
   \<and> (HoldCreateSerializer_is_valid c w r = Inr d \<and> lock_ok c \<and> cache_ok c \<and> \<not> schedule_ok c
       \<and> (\<forall>h\<in>set (holds w). h_id h \<noteq> fresh_uuid c \<and> payment_token h \<noteq> fresh_token c) \<longrightarrow>
      HoldView_post c w r =
        ((201, HoldData (fresh_uuid c) (now c + vd_ttl_minutes d * 60) (fresh_token c)),
         w\<lparr>holds := holds w @
              [\<lparr>h_id = fresh_uuid c, h_event = req_event_id r, qty = req_qty r,
                expires_at = now c + vd_ttl_minutes d * 60, payment_token = fresh_token c,
                status = ACTIVE\<rparr>],
           log := log w @ [LogFailedToScheduleExpiry (fresh_uuid c)]\<rparr>))"
proof (intro conjI impI)
  let ?F = "HoldView_post_locked (c\<lparr>schedule_ok := False\<rparr>) w"
  let ?T = "HoldView_post_locked (c\<lparr>schedule_ok := True\<rparr>) w"
  have l: "\<And>d. fst (?F d) = fst (?T d)" "\<And>d. holds (snd (?F d)) = holds (snd (?T d))"
    using locked_schedule by blast+
  have split: "\<And>p q. fst p = fst q \<Longrightarrow> holds (snd p) = holds (snd q) \<Longrightarrow>
     fst (case p of (Inl x, w') \<Rightarrow> ((500::nat, FailedToCreateHold x), w'\<lparr>log := log w' @ [LogFailedToCreateHold x]\<rparr>)
                  | (Inr resp, w') \<Rightarrow> (resp, w'))
     = fst (case q of (Inl x, w') \<Rightarrow> ((500, FailedToCreateHold x), w'\<lparr>log := log w' @ [LogFailedToCreateHold x]\<rparr>)
                  | (Inr resp, w') \<Rightarrow> (resp, w'))
     \<and> holds (snd (case p of (Inl x, w') \<Rightarrow> ((500::nat, FailedToCreateHold x), w'\<lparr>log := log w' @ [LogFailedToCreateHold x]\<rparr>)
                  | (Inr resp, w') \<Rightarrow> (resp, w')))
     = holds (snd (case q of (Inl x, w') \<Rightarrow> ((500::nat, FailedToCreateHold x), w'\<lparr>log := log w' @ [LogFailedToCreateHold x]\<rparr>)
                  | (Inr resp, w') \<Rightarrow> (resp, w')))"
    by (auto split: prod.splits sum.splits)
  show "fst (HoldView_post (c\<lparr>schedule_ok := False\<rparr>) w r) = fst (HoldView_post (c\<lparr>schedule_ok := True\<rparr>) w r)"
    using split [OF l(1) l(2)]
    by (simp add: HoldView_post_def HoldView_post_at_def RedisLock_enter_def
        split: sum.split)
  show "holds (snd (HoldView_post (c\<lparr>schedule_ok := False\<rparr>) w r))
       = holds (snd (HoldView_post (c\<lparr>schedule_ok := True\<rparr>) w r))"
    using split [OF l(1) l(2)]
    by (simp add: HoldView_post_def HoldView_post_at_def RedisLock_enter_def
        split: sum.split)
next
  assume a: "HoldCreateSerializer_is_valid c w r = Inr d \<and> lock_ok c \<and> cache_ok c \<and> \<not> schedule_ok c
       \<and> (\<forall>h\<in>set (holds w). h_id h \<noteq> fresh_uuid c \<and> payment_token h \<noteq> fresh_token c)"
  then have v: "HoldCreateSerializer_is_valid c w r = Inr d" by simp
  note f = is_valid_facts [OF v]
  have ex: "list_ex (\<lambda>e. e_id e = e_id (vd_event d)) (events w)"
    using f(1) by (auto simp: list_ex_iff)
  have nodup: "\<not> list_ex (\<lambda>r. h_id r = fresh_uuid c \<or> payment_token r = fresh_token c) (holds w)"
    using a by (auto simp: list_ex_iff)
  have pos: "0 < vd_qty d" "\<not> available_seats w (vd_event d) < vd_qty d"
    using f(2,3) by simp_all
  have cr: "HoldCreateSerializer_create c w d =
       Inr (\<lparr>h_id = fresh_uuid c, h_event = req_event_id r, qty = req_qty r,
                expires_at = now c + vd_ttl_minutes d * 60, payment_token = fresh_token c,
                status = ACTIVE\<rparr>,
            w\<lparr>holds := holds w @ [\<lparr>h_id = fresh_uuid c, h_event = req_event_id r, qty = req_qty r,
                expires_at = now c + vd_ttl_minutes d * 60, payment_token = fresh_token c,
                status = ACTIVE\<rparr>]\<rparr>)"
    using ex nodup pos f(4,5)
    by (simp add: HoldCreateSerializer_create_def Hold_objects_create_def)
  show "HoldView_post c w r =
        ((201, HoldData (fresh_uuid c) (now c + vd_ttl_minutes d * 60) (fresh_token c)),
         w\<lparr>holds := holds w @
              [\<lparr>h_id = fresh_uuid c, h_event = req_event_id r, qty = req_qty r,
                expires_at = now c + vd_ttl_minutes d * 60, payment_token = fresh_token c,
                status = ACTIVE\<rparr>],
           log := log w @ [LogFailedToScheduleExpiry (fresh_uuid c)]\<rparr>)"
    using a pos
    by (simp add: HoldView_post_def HoldView_post_at_def RedisLock_enter_def
        HoldView_post_locked_def cr set_hold_expiry_def increment_metric_def Let_def)
qed

theorem schedule_failure_keeps_hold_witness:
  "HoldCreateSerializer_is_valid broker_down busy_hall (seats_request 3)
      = Inr \<lparr>vd_event = concert, vd_qty = 3, vd_ttl_minutes = 5\<rparr>
   \<and> list_all (\<lambda>h. h_id h \<noteq> 77 \<and> payment_token h \<noteq> ''0F0F0F0F'') (holds busy_hall)
   \<and> HoldView_post broker_down busy_hall (seats_request 3) =
        ((201, HoldData 77 300 ''0F0F0F0F''),
         busy_hall\<lparr>holds := holds busy_hall @
              [\<lparr>h_id = 77, h_event = 1, qty = 3, expires_at = 300,
                payment_token = ''0F0F0F0F'', status = ACTIVE\<rparr>],
           log := [LogFailedToScheduleExpiry 77]\<rparr>)"
proof -
  have v: "HoldCreateSerializer_is_valid broker_down busy_hall (seats_request 3)
      = Inr \<lparr>vd_event = concert, vd_qty = 3, vd_ttl_minutes = 5\<rparr>"
    by (simp add: engine_defs example_defs Let_def)
  have u: "\<forall>h\<in>set (holds busy_hall). h_id h \<noteq> 77 \<and> payment_token h \<noteq> ''0F0F0F0F''"
    by (simp add: busy_hall_def)
  have c: "lock_ok broker_down" "cache_ok broker_down" "fresh_uuid broker_down = 77"
    "fresh_token broker_down = ''0F0F0F0F''" "now broker_down = 0" "log busy_hall = []"
    "\<not> schedule_ok broker_down"
    "req_event_id (seats_request 3) = 1" "req_qty (seats_request 3) = 3"
    by (simp_all add: example_defs)
  show ?thesis
    using schedule_failure_keeps_hold
      [of broker_down busy_hall "seats_request 3"
          "\<lparr>vd_event = concert, vd_qty = 3, vd_ttl_minutes = 5\<rparr>"] v u
    by (simp add: c list_all_iff)
qed

subsection \<open>Confirming a booking\<close>




text \<open>
  Claim C4 on the code: the first confirmation of hold 11 creates the booking; the
  same request again, with the right token, is refused by the serializer because the
  hold is no longer ACTIVE, so the branch of the view that would return the existing
  booking is never reached. One booking row exists for the hold throughout.
\<close>

theorem repeated_booking_is_rejected:
  "fst (BookingView_post (at_time 0) busy_hall book_11) = (201, BookingData ''BK-0F0F0F0F'')
   \<and> fst (BookingView_post (at_time 1) (snd (BookingView_post (at_time 0) busy_hall book_11))
            book_11)
       = (400, ErrorDetail (ValidationError HoldNotActive))
   \<and> length (filter (\<lambda>b. b_hold b = 11)
        (bookings (snd (BookingView_post (at_time 1)
                     (snd (BookingView_post (at_time 0) busy_hall book_11)) book_11)))) = 1"
  by (simp add: engine_defs example_defs Let_def)

subsection \<open>Metrics\<close>

lemma get_or_create_Inr:
  assumes "get_or_create_for_event w e = Inr (m, w1)"
  shows "m_event m = e_id e" "m \<in> set (metrics w1)" "holds w1 = holds w"
        "bookings w1 = bookings w" "events w1 = events w" "tasks w1 = tasks w" "log w1 = log w"
proof -
  let ?ms = "filter (\<lambda>m. m_event m = e_id e) (metrics w)"
  consider (none) "?ms = []" | (one) x where "?ms = [x]" | (more) x y zs where "?ms = x # y # zs"
    by (cases ?ms rule: list.exhaust; simp) (metis list.exhaust)
  then have "m_event m = e_id e \<and> m \<in> set (metrics w1) \<and> holds w1 = holds w \<and>
        bookings w1 = bookings w \<and> events w1 = events w \<and> tasks w1 = tasks w \<and> log w1 = log w"
  proof cases
    case none
    with assms show ?thesis by (auto simp: get_or_create_for_event_def Let_def)
  next
    case (one x)
    then have "x \<in> set ?ms" by simp
    then have "x \<in> set (metrics w)" "m_event x = e_id e" by simp_all
    with assms one show ?thesis by (auto simp: get_or_create_for_event_def)
  next
    case (more x y zs)
    with assms show ?thesis by (simp add: get_or_create_for_event_def)
  qed
  then show "m_event m = e_id e" "m \<in> set (metrics w1)" "holds w1 = holds w"
        "bookings w1 = bookings w" "events w1 = events w" "tasks w1 = tasks w" "log w1 = log w"
    by simp_all
qed

lemma get_or_create_total:
  assumes "length (filter (\<lambda>m. m_event m = e_id e) (metrics w)) \<le> 1"
  shows "\<exists>m w1. get_or_create_for_event w e = Inr (m, w1)"
proof (cases "filter (\<lambda>m. m_event m = e_id e) (metrics w)")
  case Nil
  then show ?thesis by (simp add: get_or_create_for_event_def Let_def)
next
  case (Cons x xs)
  with assms have "xs = []" by simp
  with Cons show ?thesis by (simp add: get_or_create_for_event_def)
qed

lemma update_metrics_Inr:
  assumes "update_metrics w m = Inr (m', w2)"
  shows "m' = recompute w (m_event m) m" "holds w2 = holds w" "bookings w2 = bookings w"
        "events w2 = events w" "tasks w2 = tasks w" "log w2 = log w"
        "m \<in> set (metrics w) \<Longrightarrow> m' \<in> set (metrics w2)"
proof -
  have ex: "list_ex (\<lambda>r. m_id r = m_id m) (metrics w)"
    using assms by (auto simp: update_metrics_def Let_def split: if_splits)
  show m': "m' = recompute w (m_event m) m"
    using assms ex by (auto simp: update_metrics_def Let_def)
  show "holds w2 = holds w" "bookings w2 = bookings w"
        "events w2 = events w" "tasks w2 = tasks w" "log w2 = log w"
    using assms ex by (auto simp: update_metrics_def Let_def)
  assume "m \<in> set (metrics w)"
  moreover have "metrics w2 = map (\<lambda>r. if m_id r = m_id m
                               then r\<lparr>total_holds := total_holds m',
                                      total_bookings := total_bookings m',
                                      total_expiries := total_expiries m',
                                      total_held_seats := total_held_seats m',
                                      total_booked_seats := total_booked_seats m',
                                      total_expired_seats := total_expired_seats m'\<rparr>
                               else r) (metrics w)"
    using assms ex m' by (auto simp: update_metrics_def Let_def)
  moreover have "m\<lparr>total_holds := total_holds m',
                                      total_bookings := total_bookings m',
                                      total_expiries := total_expiries m',
                                      total_held_seats := total_held_seats m',
                                      total_booked_seats := total_booked_seats m',
                                      total_expired_seats := total_expired_seats m'\<rparr> = m'"
    by (simp add: m' recompute_def)
  ultimately show "m' \<in> set (metrics w2)"
    by (auto simp: image_iff intro!: bexI [of _ m])
qed

lemma update_metrics_total:
  assumes "m \<in> set (metrics w)"
  shows "\<exists>m' w2. update_metrics w m = Inr (m', w2)"
  using assms by (auto simp: update_metrics_def Let_def list_ex_iff)

lemma recompute_counters:
  "total_holds (recompute w e m) = int (length (filter (\<lambda>h. h_event h = e) (holds w)))"
  "total_bookings (recompute w e m) =
     int (length (filter (\<lambda>h. h_event h = e \<and> (\<exists>b\<in>set (bookings w). b_hold b = h_id h)) (holds w)))"
  "total_expiries (recompute w e m) =
     int (length (filter (\<lambda>h. h_event h = e \<and> status h = EXPIRED) (holds w)))"
  "total_held_seats (recompute w e m) =
     sum_list (map qty (filter (\<lambda>h. h_event h = e \<and> status h = ACTIVE) (holds w)))"
  "total_booked_seats (recompute w e m) =
     sum_list (map qty (filter (\<lambda>h. h_event h = e \<and> (\<exists>b\<in>set (bookings w). b_hold b = h_id h)) (holds w)))"
  "total_expired_seats (recompute w e m) =
     sum_list (map qty (filter (\<lambda>h. h_event h = e \<and> status h = EXPIRED) (holds w)))"
proof -
  have hb: "has_booking w = (\<lambda>h. \<exists>b\<in>set (bookings w). b_hold b = h_id h)"
    by (simp add: has_booking_iff fun_eq_iff)
  show "total_holds (recompute w e m) = int (length (filter (\<lambda>h. h_event h = e) (holds w)))"
    by (simp add: recompute_def event_holds_def)
  show "total_bookings (recompute w e m) =
     int (length (filter (\<lambda>h. h_event h = e \<and> (\<exists>b\<in>set (bookings w). b_hold b = h_id h)) (holds w)))"
    by (simp add: recompute_def event_holds_def hb conj_commute)
  show "total_expiries (recompute w e m) =
     int (length (filter (\<lambda>h. h_event h = e \<and> status h = EXPIRED) (holds w)))"
    by (simp add: recompute_def event_holds_def conj_commute)
  show "total_held_seats (recompute w e m) =
     sum_list (map qty (filter (\<lambda>h. h_event h = e \<and> status h = ACTIVE) (holds w)))"
    by (simp add: recompute_def event_holds_def or0_Sum_qty conj_commute)
  show "total_booked_seats (recompute w e m) =
     sum_list (map qty (filter (\<lambda>h. h_event h = e \<and> (\<exists>b\<in>set (bookings w). b_hold b = h_id h)) (holds w)))"
    by (simp add: recompute_def event_holds_def or0_Sum_qty hb conj_commute)
  show "total_expired_seats (recompute w e m) =
     sum_list (map qty (filter (\<lambda>h. h_event h = e \<and> status h = EXPIRED) (holds w)))"
    by (simp add: recompute_def event_holds_def or0_Sum_qty conj_commute)
qed

lemma metrics_view_200:
  assumes "EventMetricsView_get w eid = ((200, MetricsData m'), w')"
  shows "\<exists>e m w1. find (\<lambda>e. e_id e = eid) (events w) = Some e
          \<and> get_or_create_for_event w e = Inr (m, w1)
          \<and> update_metrics w1 m = Inr (m', w')"
proof (cases "find (\<lambda>e. e_id e = eid) (events w)")
  case None
  with assms show ?thesis
    by (simp add: EventMetricsView_get_def EventMetricsView_get_body_def)
next
  case (Some e)
  show ?thesis
  proof (cases "get_or_create_for_event w e")
    case (Inl x)
    with assms Some show ?thesis
      by (cases x) (simp_all add: EventMetricsView_get_def EventMetricsView_get_body_def)
  next
    case (Inr p)
    obtain m w1 where p: "p = (m, w1)" by (cases p)
    show ?thesis
    proof (cases "update_metrics w1 m")
      case (Inl x)
      with assms Some Inr p show ?thesis
        by (cases x) (simp_all add: EventMetricsView_get_def EventMetricsView_get_body_def)
    next
      case (Inr q)
      obtain m2 w2 where q: "q = (m2, w2)" by (cases q)
      with assms Some \<open>get_or_create_for_event w e = Inr p\<close> p Inr show ?thesis
        by (simp add: EventMetricsView_get_def EventMetricsView_get_body_def)
    qed
  qed
qed


text \<open>
  Claim C10. Whenever the event metrics view answers with counters, they are the
  counts and sums over the hold and booking rows as they are at that moment, whatever
  the metrics row held before, and the row is stored with them; the view leaves holds,
  bookings and events alone. It does answer with counters for every existing event
  that has at most one metrics row.
\<close>

theorem event_metrics_are_fresh:
  "(EventMetricsView_get w eid = ((200, MetricsData m), w') \<longrightarrow>
      total_holds m = int (length (filter (\<lambda>h. h_event h = eid) (holds w)))
    \<and> total_bookings m =
        int (length (filter (\<lambda>h. h_event h = eid \<and> (\<exists>b\<in>set (bookings w). b_hold b = h_id h))
                            (holds w)))
    \<and> total_expiries m =
        int (length (filter (\<lambda>h. h_event h = eid \<and> status h = EXPIRED) (holds w)))
    \<and> total_held_seats m =
        sum_list (map qty (filter (\<lambda>h. h_event h = eid \<and> status h = ACTIVE) (holds w)))
    \<and> total_booked_seats m =
        sum_list (map qty (filter (\<lambda>h. h_event h = eid \<and> (\<exists>b\<in>set (bookings w). b_hold b = h_id h))
                                  (holds w)))
    \<and> total_expired_seats m =
        sum_list (map qty (filter (\<lambda>h. h_event h = eid \<and> status h = EXPIRED) (holds w)))
    \<and> m_event m = eid \<and> m \<in> set (metrics w')
    \<and> holds w' = holds w \<and> bookings w' = bookings w \<and> events w' = events w)
   \<and> (find (\<lambda>e. e_id e = eid) (events w) = Some e
       \<and> length (filter (\<lambda>m. m_event m = eid) (metrics w)) \<le> 1 \<longrightarrow>
      (\<exists>m w'. EventMetricsView_get w eid = ((200, MetricsData m), w')))"
proof (intro conjI impI)
  assume "find (\<lambda>e. e_id e = eid) (events w) = Some e
       \<and> length (filter (\<lambda>m. m_event m = eid) (metrics w)) \<le> 1"
  then have f: "find (\<lambda>e. e_id e = eid) (events w) = Some e"
    and l: "length (filter (\<lambda>m. m_event m = eid) (metrics w)) \<le> 1" by simp_all
  from f have "e_id e = eid" by (auto simp: find_Some_iff)
  with l obtain m0 w1 where g: "get_or_create_for_event w e = Inr (m0, w1)"
    using get_or_create_total [of e w] by auto
  from get_or_create_Inr(2) [OF g] obtain m1 w2 where u: "update_metrics w1 m0 = Inr (m1, w2)"
    using update_metrics_total by blast
  show "\<exists>m w'. EventMetricsView_get w eid = ((200, MetricsData m), w')"
    using f g u by (simp add: EventMetricsView_get_def EventMetricsView_get_body_def)
next
  assume a: "EventMetricsView_get w eid = ((200, MetricsData m), w')"
  from metrics_view_200 [OF a] obtain e m0 w1 where
    f: "find (\<lambda>e. e_id e = eid) (events w) = Some e" and
    g: "get_or_create_for_event w e = Inr (m0, w1)" and
    u: "update_metrics w1 m0 = Inr (m, w')" by blast
  from f have e: "e_id e = eid" by (auto simp: find_Some_iff)
  note G = get_or_create_Inr [OF g]
  note U = update_metrics_Inr [OF u]
  have m: "m = recompute w1 eid m0" using U(1) G(1) e by simp
  show "total_holds m = int (length (filter (\<lambda>h. h_event h = eid) (holds w)))"
    by (simp add: m recompute_counters G)
  show "total_bookings m =
        int (length (filter (\<lambda>h. h_event h = eid \<and> (\<exists>b\<in>set (bookings w). b_hold b = h_id h))
                            (holds w)))"
    by (simp add: m recompute_counters G)
  show "total_expiries m =
        int (length (filter (\<lambda>h. h_event h = eid \<and> status h = EXPIRED) (holds w)))"
    by (simp add: m recompute_counters G)
  show "total_held_seats m =
        sum_list (map qty (filter (\<lambda>h. h_event h = eid \<and> status h = ACTIVE) (holds w)))"
    by (simp add: m recompute_counters G)
  show "total_booked_seats m =
        sum_list (map qty (filter (\<lambda>h. h_event h = eid \<and> (\<exists>b\<in>set (bookings w). b_hold b = h_id h))
                                  (holds w)))"
    by (simp add: m recompute_counters G)
  show "total_expired_seats m =
        sum_list (map qty (filter (\<lambda>h. h_event h = eid \<and> status h = EXPIRED) (holds w)))"
    by (simp add: m recompute_counters G)
  show "m_event m = eid" by (simp add: m recompute_def G(1) e)
  show "m \<in> set (metrics w')" using U(7) G(2) by simp
  show "holds w' = holds w" "bookings w' = bookings w" "events w' = events w"
    using U G by simp_all
qed

theorem event_metrics_are_fresh_witness:
  "EventMetricsView_get stale_hall 1
     = ((200, MetricsData fresh_counters), stale_hall\<lparr>metrics := [fresh_counters]\<rparr>)
   \<and> total_holds fresh_counters = 3 \<and> total_booked_seats fresh_counters = 4
   \<and> find (\<lambda>e. e_id e = 1) (events stale_hall) = Some concert
   \<and> length (filter (\<lambda>m. m_event m = 1) (metrics stale_hall)) \<le> 1"
proof -
  have r: "EventMetricsView_get stale_hall 1
     = ((200, MetricsData fresh_counters), stale_hall\<lparr>metrics := [fresh_counters]\<rparr>)"
    by (simp add: engine_defs example_defs Let_def)
  have f: "find (\<lambda>e. e_id e = 1) (events stale_hall) = Some concert"
    "length (filter (\<lambda>m. m_event m = 1) (metrics stale_hall)) \<le> 1"
    by (simp_all add: example_defs)
  show ?thesis
    using event_metrics_are_fresh [of stale_hall 1 fresh_counters
        "stale_hall\<lparr>metrics := [fresh_counters]\<rparr>" concert] r f
    by (simp add: fresh_counters_def)
qed

subsection \<open>Expiry processing\<close>

lemma refresh_metrics_Inr:
  assumes "refresh_metrics w hold = Inr w'"
  shows "holds w' = holds w" "bookings w' = bookings w" "events w' = events w"
        "tasks w' = tasks w" "log w' = log w"
proof -
  obtain e where e: "Hold_event w hold = Inr e"
    using assms by (cases "Hold_event w hold") (simp_all add: refresh_metrics_def)
  obtain m w1 where g: "get_or_create_for_event w e = Inr (m, w1)"
    using assms e by (cases "get_or_create_for_event w e") (auto simp: refresh_metrics_def)
  obtain m' where u: "update_metrics w1 m = Inr (m', w')"
    using assms e g by (cases "update_metrics w1 m") (auto simp: refresh_metrics_def)
  note G = get_or_create_Inr [OF g]
  note U = update_metrics_Inr [OF u]
  show "holds w' = holds w" "bookings w' = bookings w" "events w' = events w"
        "tasks w' = tasks w" "log w' = log w"
    using G U by simp_all
qed

lemma refresh_metrics_total:
  assumes "find (\<lambda>e. e_id e = h_event hold) (events w) = Some e"
    and "length (filter (\<lambda>m. m_event m = h_event hold) (metrics w)) \<le> 1"
  shows "\<exists>w'. refresh_metrics w hold = Inr w'"
proof -
  from assms(1) have e: "e_id e = h_event hold" by (auto simp: find_Some_iff)
  with assms(2) obtain m w1 where g: "get_or_create_for_event w e = Inr (m, w1)"
    using get_or_create_total [of e w] by auto
  from get_or_create_Inr(2) [OF g] obtain m1 w2 where u: "update_metrics w1 m = Inr (m1, w2)"
    using update_metrics_total by blast
  show ?thesis using assms(1) g u by (simp add: refresh_metrics_def Hold_event_def)
qed

lemma no_active_after:
  fixes h :: Hold
  shows "h \<in> set (map (\<lambda>r. if h_id r = i then r\<lparr>status := EXPIRED\<rparr> else r) hs) \<Longrightarrow> h_id h = i \<Longrightarrow> status h \<noteq> ACTIVE"
proof -
  assume a: "h \<in> set (map (\<lambda>r. if h_id r = i then r\<lparr>status := EXPIRED\<rparr> else r) hs)" and b: "h_id h = i"
  then obtain r where r: "r \<in> set hs" "h = (if h_id r = i then r\<lparr>status := EXPIRED\<rparr> else r)"
    by (auto simp only: set_map image_iff)
  show ?thesis
  proof (cases "h_id r = i")
    case True
    with r have "h = r\<lparr>status := EXPIRED\<rparr>" by simp
    then show ?thesis by simp
  next
    case False
    with r have "h = r" by simp
    with False b show ?thesis by simp
  qed
qed

text \<open>What a run of the expiry task can do to the world.\<close>

lemma expire_specific_hold_cases:
  obtains (logged) l where "expire_specific_hold c w i = w\<lparr>log := log w @ [l]\<rparr>"
  | (expired) hold where "find (\<lambda>h. h_id h = i \<and> status h = ACTIVE) (holds w) = Some hold"
      "expires_at hold < now c"
      "holds (expire_specific_hold c w i) =
         map (\<lambda>r. if h_id r = i then r\<lparr>status := EXPIRED\<rparr> else r) (holds w)"
      "bookings (expire_specific_hold c w i) = bookings w"
      "events (expire_specific_hold c w i) = events w"
proof (cases "expire_atomic c w i")
  case (Inl x)
  then show ?thesis
    by (cases x) (auto simp: expire_specific_hold_def intro: logged)
next
  case (Inr w')
  then obtain hold where f: "find (\<lambda>h. h_id h = i \<and> status h = ACTIVE) (holds w) = Some hold"
    by (cases "find (\<lambda>h. h_id h = i \<and> status h = ACTIVE) (holds w)")
       (auto simp: expire_atomic_def)
  then have i: "h_id hold = i" by (auto simp: find_Some_iff)
  show ?thesis
  proof (cases "is_expired c hold")
    case False
    with Inr f have "expire_specific_hold c w i = w\<lparr>log := log w @ [LogHoldNotExpiredYet i]\<rparr>"
      by (auto simp: expire_specific_hold_def expire_atomic_def)
    then show ?thesis by (rule logged)
  next
    case True
    obtain w1 where s: "Hold_save_status w (hold\<lparr>status := EXPIRED\<rparr>) = Inr w1"
      using Inr f True
      by (cases "Hold_save_status w (hold\<lparr>status := EXPIRED\<rparr>)") (auto simp: expire_atomic_def)
    then have w1: "holds w1 = map (\<lambda>r. if h_id r = i then r\<lparr>status := EXPIRED\<rparr> else r) (holds w)"
      "bookings w1 = bookings w" "events w1 = events w"
      using i by (auto simp: Hold_save_status_def split: if_splits)
    have r: "refresh_metrics w1 hold = Inr w'"
      using Inr f True s
      by (cases "refresh_metrics w1 hold")
         (auto simp: expire_atomic_def clear_hold_expiry_def increment_metric_def split: if_splits)
    have "expire_specific_hold c w i = w'" using Inr by (simp add: expire_specific_hold_def)
    with refresh_metrics_Inr [OF r] w1 True f show ?thesis
      by (intro expired [of hold]) (simp_all add: is_expired_def)
  qed
qed

lemma expire_not_active:
  assumes "\<not> (\<exists>h\<in>set (holds w). h_id h = i \<and> status h = ACTIVE)"
  shows "expire_specific_hold c w i = w\<lparr>log := log w @ [LogHoldNotFoundInDatabase i]\<rparr>"
proof -
  have "find (\<lambda>h. h_id h = i \<and> status h = ACTIVE) (holds w) = None"
    using assms by (auto simp: find_None_iff)
  then show ?thesis by (simp add: expire_specific_hold_def expire_atomic_def)
qed

lemma expire_due:
  assumes f: "find (\<lambda>h. h_id h = i \<and> status h = ACTIVE) (holds w) = Some hold"
    and d: "expires_at hold < now c" and c: "cache_ok c"
    and e: "find (\<lambda>e. e_id e = h_event hold) (events w) = Some ev"
    and m: "length (filter (\<lambda>m. m_event m = h_event hold) (metrics w)) \<le> 1"
  shows "holds (expire_specific_hold c w i) =
         map (\<lambda>r. if h_id r = i then r\<lparr>status := EXPIRED\<rparr> else r) (holds w)"
proof -
  from f have i: "h_id hold = i" "hold \<in> set (holds w)" by (auto simp: find_Some_iff)
  let ?w1 = "w\<lparr>holds := map (\<lambda>r. if h_id r = i then r\<lparr>status := EXPIRED\<rparr> else r) (holds w)\<rparr>"
  have s: "Hold_save_status w (hold\<lparr>status := EXPIRED\<rparr>) = Inr ?w1"
    using i by (auto simp: Hold_save_status_def list_ex_iff)
  obtain w' where r: "refresh_metrics ?w1 hold = Inr w'"
    using refresh_metrics_total [where w = ?w1 and hold = hold and e = ev] e m by auto
  have "expire_specific_hold c w i = w'"
    using f d c s r
    by (simp add: expire_specific_hold_def expire_atomic_def is_expired_def
        clear_hold_expiry_def increment_metric_def)
  with refresh_metrics_Inr(1) [OF r] show ?thesis by simp
qed


text \<open>
  Claim C8. A run of the expiry task on a hold id with no ACTIVE row (the hold is
  EXPIRED, BOOKED or unknown) changes nothing and only logs the warning that the hold
  was not found; on an ACTIVE hold whose deadline is not past it changes nothing
  either. A due hold is set to EXPIRED when the cache and the metrics rows allow the
  transaction to commit. Whenever a run did change the hold table, it set the rows
  with that id to EXPIRED and a second run, at any time, changes nothing and logs no
  error.
\<close>

theorem expiry_is_idempotent:
  "(\<not> (\<exists>h\<in>set (holds w). h_id h = i \<and> status h = ACTIVE) \<longrightarrow>
      expire_specific_hold c w i = w\<lparr>log := log w @ [LogHoldNotFoundInDatabase i]\<rparr>)
   \<and> (find (\<lambda>h. h_id h = i \<and> status h = ACTIVE) (holds w) = Some hold
       \<and> now c \<le> expires_at hold \<longrightarrow>
      expire_specific_hold c w i = w\<lparr>log := log w @ [LogHoldNotExpiredYet i]\<rparr>)
   \<and> (find (\<lambda>h. h_id h = i \<and> status h = ACTIVE) (holds w) = Some hold
       \<and> expires_at hold < now c \<and> cache_ok c
       \<and> find (\<lambda>e. e_id e = h_event hold) (events w) = Some ev
       \<and> length (filter (\<lambda>m. m_event m = h_event hold) (metrics w)) \<le> 1 \<longrightarrow>
      holds (expire_specific_hold c w i) =
        map (\<lambda>r. if h_id r = i then r\<lparr>status := EXPIRED\<rparr> else r) (holds w))
   \<and> (holds (expire_specific_hold c w i) \<noteq> holds w \<longrightarrow>
      holds (expire_specific_hold c w i) =
        map (\<lambda>r. if h_id r = i then r\<lparr>status := EXPIRED\<rparr> else r) (holds w)
      \<and> expire_specific_hold c' (expire_specific_hold c w i) i =
          (expire_specific_hold c w i)
            \<lparr>log := log (expire_specific_hold c w i) @ [LogHoldNotFoundInDatabase i]\<rparr>)"
proof (intro conjI impI)
  assume "\<not> (\<exists>h\<in>set (holds w). h_id h = i \<and> status h = ACTIVE)"
  then show "expire_specific_hold c w i = w\<lparr>log := log w @ [LogHoldNotFoundInDatabase i]\<rparr>"
    by (rule expire_not_active)
next
  assume "find (\<lambda>h. h_id h = i \<and> status h = ACTIVE) (holds w) = Some hold
       \<and> now c \<le> expires_at hold"
  then show "expire_specific_hold c w i = w\<lparr>log := log w @ [LogHoldNotExpiredYet i]\<rparr>"
    by (simp add: expire_specific_hold_def expire_atomic_def is_expired_def)
next
  assume "find (\<lambda>h. h_id h = i \<and> status h = ACTIVE) (holds w) = Some hold
       \<and> expires_at hold < now c \<and> cache_ok c
       \<and> find (\<lambda>e. e_id e = h_event hold) (events w) = Some ev
       \<and> length (filter (\<lambda>m. m_event m = h_event hold) (metrics w)) \<le> 1"
  then show "holds (expire_specific_hold c w i) =
        map (\<lambda>r. if h_id r = i then r\<lparr>status := EXPIRED\<rparr> else r) (holds w)"
    using expire_due by blast
next
  assume ch: "holds (expire_specific_hold c w i) \<noteq> holds w"
  show m: "holds (expire_specific_hold c w i) =
        map (\<lambda>r. if h_id r = i then r\<lparr>status := EXPIRED\<rparr> else r) (holds w)"
  proof (rule expire_specific_hold_cases [where c = c and w = w and i = i])
    fix l assume "expire_specific_hold c w i = w\<lparr>log := log w @ [l]\<rparr>"
    with ch show ?thesis by simp
  next
    fix hold' :: Hold
    assume "holds (expire_specific_hold c w i) =
         map (\<lambda>r. if h_id r = i then r\<lparr>status := EXPIRED\<rparr> else r) (holds w)"
    then show ?thesis .
  qed
  have "\<not> (\<exists>h\<in>set (holds (expire_specific_hold c w i)). h_id h = i \<and> status h = ACTIVE)"
    unfolding m using no_active_after by blast
  then show "expire_specific_hold c' (expire_specific_hold c w i) i =
          (expire_specific_hold c w i)
            \<lparr>log := log (expire_specific_hold c w i) @ [LogHoldNotFoundInDatabase i]\<rparr>"
    by (rule expire_not_active)
qed

theorem expiry_is_idempotent_witness:
  "find (\<lambda>h. h_id h = 11 \<and> status h = ACTIVE) (holds busy_hall) = Some hold_11
   \<and> expires_at hold_11 < now (at_time 101)
   \<and> holds (expire_specific_hold (at_time 101) busy_hall 11) \<noteq> holds busy_hall
   \<and> map status (holds (expire_specific_hold (at_time 101) busy_hall 11))
        = [EXPIRED, BOOKED, EXPIRED]
   \<and> expire_specific_hold (at_time 102) (expire_specific_hold (at_time 101) busy_hall 11) 11
       = (expire_specific_hold (at_time 101) busy_hall 11)
           \<lparr>log := log (expire_specific_hold (at_time 101) busy_hall 11)
                    @ [LogHoldNotFoundInDatabase 11]\<rparr>
   \<and> expire_specific_hold (at_time 50) busy_hall 11
       = busy_hall\<lparr>log := log busy_hall @ [LogHoldNotExpiredYet 11]\<rparr>"
proof -
  have f: "find (\<lambda>h. h_id h = 11 \<and> status h = ACTIVE) (holds busy_hall) = Some hold_11"
    by (simp add: example_defs)
  have d: "expires_at hold_11 < now (at_time 101)" "cache_ok (at_time 101)"
    "now (at_time 50) \<le> expires_at hold_11"
    by (simp_all add: example_defs)
  have e: "find (\<lambda>e. e_id e = h_event hold_11) (events busy_hall) = Some concert"
    "length (filter (\<lambda>m. m_event m = h_event hold_11) (metrics busy_hall)) \<le> 1"
    by (simp_all add: example_defs)
  have m: "map (\<lambda>r. if h_id r = 11 then r\<lparr>status := EXPIRED\<rparr> else r) (holds busy_hall)
             \<noteq> holds busy_hall"
    "map status (map (\<lambda>r. if h_id r = 11 then r\<lparr>status := EXPIRED\<rparr> else r) (holds busy_hall))
       = [EXPIRED, BOOKED, EXPIRED]"
    by (simp_all add: example_defs)
  note t1 = expiry_is_idempotent [where w = busy_hall and i = 11 and c = "at_time 101"
      and hold = hold_11 and ev = concert and c' = "at_time 102"]
  note t2 = expiry_is_idempotent [where w = busy_hall and i = 11 and c = "at_time 50"
      and hold = hold_11 and ev = concert and c' = "at_time 102"]
  from t1 f d e have h: "holds (expire_specific_hold (at_time 101) busy_hall 11) =
        map (\<lambda>r. if h_id r = 11 then r\<lparr>status := EXPIRED\<rparr> else r) (holds busy_hall)"
    by blast
  with m have ne: "holds (expire_specific_hold (at_time 101) busy_hall 11) \<noteq> holds busy_hall"
    by simp
  with t1 have twice: "expire_specific_hold (at_time 102) (expire_specific_hold (at_time 101) busy_hall 11) 11
       = (expire_specific_hold (at_time 101) busy_hall 11)
           \<lparr>log := log (expire_specific_hold (at_time 101) busy_hall 11)
                    @ [LogHoldNotFoundInDatabase 11]\<rparr>"
    by blast
  from t2 f d have early: "expire_specific_hold (at_time 50) busy_hall 11
       = busy_hall\<lparr>log := log busy_hall @ [LogHoldNotExpiredYet 11]\<rparr>"
    by blast
  show ?thesis using f d(1) ne h m(2) twice early by simp
qed


subsection \<open>Expiry racing a booking\<close>

text \<open>
  Claim C1 on the code. \<open>BookingView.post\<close> validates the hold it read before its
  transaction starts and never reads it again. With hold 11 due at 100: the booking
  request is validated at 99, the expiry task runs at 101 and sets the hold to
  EXPIRED, and the booking transaction then inserts the booking and overwrites the
  status with BOOKED. The hold has reached both terminal statuses.
\<close>

theorem expiry_between_validation_and_commit:
  "BookingCreateSerializer_validate (at_time 99) busy_hall book_11 = Inr (hold_11, None)
   \<and> map status (holds (expire_specific_hold (at_time 101) busy_hall 11))
        = [EXPIRED, BOOKED, EXPIRED]
   \<and> fst (BookingView_post_commit (at_time 101)
            (expire_specific_hold (at_time 101) busy_hall 11) (hold_11, None))
        = (201, BookingData ''BK-0F0F0F0F'')
   \<and> map status (holds (snd (BookingView_post_commit (at_time 101)
            (expire_specific_hold (at_time 101) busy_hall 11) (hold_11, None))))
        = [BOOKED, BOOKED, EXPIRED]
   \<and> map b_hold (bookings (snd (BookingView_post_commit (at_time 101)
            (expire_specific_hold (at_time 101) busy_hall 11) (hold_11, None))))
        = [12, 11]"
  by (simp add: engine_defs example_defs Let_def)

subsection \<open>What each operation does to the tables\<close>

lemma set_status_fields [simp]:
  "h_id (set_status i s r) = h_id r" "h_event (set_status i s r) = h_event r"
  "qty (set_status i s r) = qty r" "expires_at (set_status i s r) = expires_at r"
  "payment_token (set_status i s r) = payment_token r"
  "status (set_status i s r) = (if h_id r = i then s else status r)"
  by (simp_all add: set_status_def)

lemma set_status_other [simp]: "h_id r \<noteq> i \<Longrightarrow> set_status i s r = r"
  by (simp add: set_status_def)














subsection \<open>Monotonic status\<close>

lemma h_id_comp_set_status [simp]: "h_id \<circ> set_status i s = h_id"
  by (simp add: fun_eq_iff)













subsection \<open>No oversell\<close>














text \<open>
  The sequence matters. When the expiry of a hold on all ten seats and a new hold on
  ten seats fall between the validation and the transaction of that hold's booking,
  twenty seats of ten end up BOOKED or ACTIVE.
\<close>

lemma race_oversells:
  "BookingCreateSerializer_validate (at_time 99) full_house book_11
     = Inr (\<lparr>h_id = 11, h_event = 1, qty = 10, expires_at = 100, payment_token = ''t11'',
              status = ACTIVE\<rparr>, None)
   \<and> map (\<lambda>h. (status h, qty h))
        (holds (snd (BookingView_post_commit (at_time 103)
           (snd (HoldView_post (draw 102 31 ''A1'')
                   (expire_specific_hold (at_time 101) full_house 11) (seats_request 10)))
           (\<lparr>h_id = 11, h_event = 1, qty = 10, expires_at = 100, payment_token = ''t11'',
              status = ACTIVE\<rparr>, None))))
      = [(BOOKED, 10), (ACTIVE, 10)]"
  by (simp add: engine_defs example_defs Let_def)

end
